theory Spec2Isabelle
  imports Main
begin

section \<open>JavaScript values\<close>

text \<open>
  The values that travel through the account client: request and response bodies,
  error objects, and the contents of the store. Objects are association lists from
  property names to values (the first binding of a name is the one that is read);
  numbers are integers, which is all that identifiers and JSON status fields need.
\<close>

datatype jsval =
    JUndefined
  | JNull
  | JBool bool
  | JNum int
  | JStr string
  | JArr "jsval list"
  | JObj "(string \<times> jsval) list"

text \<open>
  Truthiness, as the operator \<^verbatim>\<open>||\<close> tests it: \<^verbatim>\<open>undefined\<close>, \<^verbatim>\<open>null\<close>,
  \<^verbatim>\<open>false\<close>, \<^verbatim>\<open>0\<close> and the empty string are falsy, every array and every
  object is truthy.
\<close>

fun truthy :: "jsval \<Rightarrow> bool" where
  "truthy JUndefined = False"
| "truthy JNull = False"
| "truthy (JBool b) = b"
| "truthy (JNum n) = (n \<noteq> 0)"
| "truthy (JStr s) = (s \<noteq> [])"
| "truthy (JArr xs) = True"
| "truthy (JObj kvs) = True"

text \<open>\<^verbatim>\<open>a || b\<close>: the left operand when it is truthy, the right one otherwise.\<close>

definition js_or :: "jsval \<Rightarrow> jsval \<Rightarrow> jsval" where
  "js_or a b = (if truthy a then a else b)"

text \<open>Reading a property of an object: \<^verbatim>\<open>undefined\<close> when the object has none of that name.\<close>

definition property :: "(string \<times> jsval) list \<Rightarrow> string \<Rightarrow> jsval" where
  "property obj k = (case map_of obj k of None \<Rightarrow> JUndefined | Some v \<Rightarrow> v)"

section \<open>The user slice (features/user/userSlice.js)\<close>

datatype request_status = Idle | Loading | Succeeded | Failed

record user_state =
  user :: jsval
  status :: request_status
  error :: jsval

definition initialState :: user_state where
  "initialState = \<lparr>user = JNull, status = Idle, error = JNull\<rparr>"

text \<open>
  The seven asynchronous thunks, named by their action type prefix
  (\<^verbatim>\<open>user/register\<close>, \<^verbatim>\<open>user/confirmRegistration\<close>, ...).
\<close>

datatype thunk =
    Register
  | ConfirmRegistration
  | Authenticate
  | InitiatePasswordReset
  | CompletePasswordReset
  | GetUserById
  | UpdateUser

text \<open>
  The actions the slice handles: its two synchronous actions and, for each thunk, the
  three lifecycle actions. A fulfilled action carries \<^verbatim>\<open>action.payload\<close>; a rejected
  action carries \<^verbatim>\<open>action.payload\<close> and \<^verbatim>\<open>action.error.message\<close>.
\<close>

datatype action =
    ClearError
  | Logout
  | Pending thunk
  | Fulfilled thunk jsval
  | Rejected thunk jsval jsval

definition clearError :: "user_state \<Rightarrow> user_state" where
  "clearError state = state\<lparr>error := JNull\<rparr>"

definition logout :: "user_state \<Rightarrow> user_state" where
  "logout state = state\<lparr>user := JNull, status := Idle, error := JNull\<rparr>"

text \<open>
  The reducer: \<^verbatim>\<open>reducers\<close> first, then the cases of \<^verbatim>\<open>extraReducers\<close> in the
  order of the source. Each handler assigns to the fields of the draft state; the
  model returns the updated record.
\<close>

fun reducer :: "user_state \<Rightarrow> action \<Rightarrow> user_state" where
  "reducer state ClearError = clearError state"
| "reducer state Logout = logout state"
| "reducer state (Pending Register) = state\<lparr>status := Loading, error := JNull\<rparr>"
| "reducer state (Fulfilled Register payload) = state\<lparr>status := Succeeded, user := payload\<rparr>"
| "reducer state (Rejected Register payload message) =
     state\<lparr>status := Failed, error := js_or payload message\<rparr>"
| "reducer state (Pending ConfirmRegistration) = state\<lparr>status := Loading, error := JNull\<rparr>"
| "reducer state (Fulfilled ConfirmRegistration payload) =
     state\<lparr>status := Succeeded, user := payload\<rparr>"
| "reducer state (Rejected ConfirmRegistration payload message) =
     state\<lparr>status := Failed, error := js_or payload message\<rparr>"
| "reducer state (Pending Authenticate) = state\<lparr>status := Loading, error := JNull\<rparr>"
| "reducer state (Fulfilled Authenticate payload) =
     state\<lparr>status := Succeeded, user := payload\<rparr>"
| "reducer state (Rejected Authenticate payload message) =
     state\<lparr>status := Failed, error := js_or payload message\<rparr>"
| "reducer state (Pending InitiatePasswordReset) = state\<lparr>status := Loading, error := JNull\<rparr>"
| "reducer state (Fulfilled InitiatePasswordReset payload) = state\<lparr>status := Succeeded\<rparr>"
| "reducer state (Rejected InitiatePasswordReset payload message) =
     state\<lparr>status := Failed, error := js_or payload message\<rparr>"
| "reducer state (Pending CompletePasswordReset) = state\<lparr>status := Loading, error := JNull\<rparr>"
| "reducer state (Fulfilled CompletePasswordReset payload) =
     state\<lparr>status := Succeeded, user := payload\<rparr>"
| "reducer state (Rejected CompletePasswordReset payload message) =
     state\<lparr>status := Failed, error := js_or payload message\<rparr>"
| "reducer state (Pending GetUserById) = state\<lparr>status := Loading, error := JNull\<rparr>"
| "reducer state (Fulfilled GetUserById payload) = state\<lparr>status := Succeeded, user := payload\<rparr>"
| "reducer state (Rejected GetUserById payload message) =
     state\<lparr>status := Failed, error := js_or payload message\<rparr>"
| "reducer state (Pending UpdateUser) = state\<lparr>status := Loading, error := JNull\<rparr>"
| "reducer state (Fulfilled UpdateUser payload) = state\<lparr>status := Succeeded, user := payload\<rparr>"
| "reducer state (Rejected UpdateUser payload message) =
     state\<lparr>status := Failed, error := js_or payload message\<rparr>"

text \<open>Dispatching a sequence of actions to a store that starts in a given state.\<close>

definition dispatch :: "user_state \<Rightarrow> action list \<Rightarrow> user_state" where
  "dispatch state actions = foldl reducer state actions"

section \<open>The account service (services/userService.js)\<close>

text \<open>
  \<^verbatim>\<open>API_BASE_URL\<close> is the environment variable \<^verbatim>\<open>REACT_APP_API_BASE_URL\<close> when it
  is set to a non-empty string, and the local endpoint otherwise.
\<close>

definition API_BASE_URL :: "string option \<Rightarrow> string" where
  "API_BASE_URL env =
     (case env of
        None \<Rightarrow> ''http://localhost:8000/api/users''
      | Some url \<Rightarrow> if url \<noteq> [] then url else ''http://localhost:8000/api/users'')"

text \<open>
  The requests the service sends, and what the HTTP library answers: the promise
  resolves with a response object, or rejects with an error object, which has a
  \<^verbatim>\<open>response\<close> property when the server answered with a failure status and none when
  no answer arrived. The library itself is a parameter of every service function.
\<close>

datatype request =
    Post string jsval
  | Get string
  | Put string jsval

datatype axios_outcome =
    AxiosResponse "(string \<times> jsval) list"
  | AxiosError "(string \<times> jsval) list"

type_synonym axios = "request \<Rightarrow> axios_outcome"

text \<open>\<^verbatim>\<open>error.response?.data\<close>\<close>

definition response_data :: "(string \<times> jsval) list \<Rightarrow> jsval" where
  "response_data err =
     (case property err ''response'' of
        JUndefined \<Rightarrow> JUndefined
      | JNull \<Rightarrow> JUndefined
      | JObj response \<Rightarrow> property response ''data''
      | _ \<Rightarrow> JUndefined)"

text \<open>
  The conversion to a string that a template literal applies to \<^verbatim>\<open>id\<close> in the paths
  \<^verbatim>\<open>/user/${id}\<close>. A number is printed as its decimal digits, which is what
  JavaScript prints for the integers of magnitude below \<^verbatim>\<open>2^53\<close>; a larger number is a
  double there and prints otherwise. The statements below hold for every path and do
  not rest on the digits.
\<close>

fun digits :: "nat \<Rightarrow> string" where
  "digits n = (if n < 10 then [''0123456789'' ! n]
               else digits (n div 10) @ [''0123456789'' ! (n mod 10)])"

definition show_int :: "int \<Rightarrow> string" where
  "show_int n = (if n < 0 then ''-'' @ digits (nat (- n)) else digits (nat n))"

fun join :: "string list \<Rightarrow> string" where
  "join [] = []"
| "join [x] = x"
| "join (x # y # ys) = x @ '','' @ join (y # ys)"

fun template :: "jsval \<Rightarrow> string" where
  "template JUndefined = ''undefined''"
| "template JNull = ''null''"
| "template (JBool b) = (if b then ''true'' else ''false'')"
| "template (JNum n) = show_int n"
| "template (JStr s) = s"
| "template (JArr xs) =
     join (map (\<lambda>x. if x = JNull \<or> x = JUndefined then [] else template x) xs)"
| "template (JObj kvs) = ''[object Object]''"

text \<open>
  Each service function awaits one request inside \<^verbatim>\<open>try\<close>. It returns
  \<^verbatim>\<open>response.data\<close> (\<open>Inr\<close>), or logs the error to the console and throws
  \<^verbatim>\<open>error.response?.data || error\<close> (\<open>Inl\<close>).
\<close>

definition registerUser :: "axios \<Rightarrow> string \<Rightarrow> jsval \<Rightarrow> jsval + jsval" where
  "registerUser axios base userData =
     (case axios (Post (base @ ''/register'') userData) of
        AxiosResponse response \<Rightarrow> Inr (property response ''data'')
      | AxiosError err \<Rightarrow> Inl (js_or (response_data err) (JObj err)))"

definition confirmUserRegistration :: "axios \<Rightarrow> string \<Rightarrow> jsval \<Rightarrow> jsval + jsval" where
  "confirmUserRegistration axios base data =
     (case axios (Post (base @ ''/confirm'') data) of
        AxiosResponse response \<Rightarrow> Inr (property response ''data'')
      | AxiosError err \<Rightarrow> Inl (js_or (response_data err) (JObj err)))"

definition authenticateUser :: "axios \<Rightarrow> string \<Rightarrow> jsval \<Rightarrow> jsval + jsval" where
  "authenticateUser axios base credentials =
     (case axios (Post (base @ ''/authenticate'') credentials) of
        AxiosResponse response \<Rightarrow> Inr (property response ''data'')
      | AxiosError err \<Rightarrow> Inl (js_or (response_data err) (JObj err)))"

definition initiatePasswordReset :: "axios \<Rightarrow> string \<Rightarrow> jsval \<Rightarrow> jsval + jsval" where
  "initiatePasswordReset axios base email =
     (case axios (Post (base @ ''/password-reset/initiate'') (JObj [(''email'', email)])) of
        AxiosResponse response \<Rightarrow> Inr (property response ''data'')
      | AxiosError err \<Rightarrow> Inl (js_or (response_data err) (JObj err)))"

definition completePasswordReset :: "axios \<Rightarrow> string \<Rightarrow> jsval \<Rightarrow> jsval + jsval" where
  "completePasswordReset axios base data =
     (case axios (Post (base @ ''/password-reset/complete'') data) of
        AxiosResponse response \<Rightarrow> Inr (property response ''data'')
      | AxiosError err \<Rightarrow> Inl (js_or (response_data err) (JObj err)))"

definition getUserById :: "axios \<Rightarrow> string \<Rightarrow> jsval \<Rightarrow> jsval + jsval" where
  "getUserById axios base user_id =
     (case axios (Get (base @ ''/user/'' @ template user_id)) of
        AxiosResponse response \<Rightarrow> Inr (property response ''data'')
      | AxiosError err \<Rightarrow> Inl (js_or (response_data err) (JObj err)))"

definition updateUser :: "axios \<Rightarrow> string \<Rightarrow> jsval \<Rightarrow> jsval \<Rightarrow> jsval + jsval" where
  "updateUser axios base user_id updateData =
     (case axios (Put (base @ ''/user/'' @ template user_id) updateData) of
        AxiosResponse response \<Rightarrow> Inr (property response ''data'')
      | AxiosError err \<Rightarrow> Inl (js_or (response_data err) (JObj err)))"

section \<open>The thunks (features/user/userSlice.js)\<close>

text \<open>
  A thunk made by \<^verbatim>\<open>createAsyncThunk\<close> dispatches its pending action when it is
  triggered and, when its payload creator settles, the fulfilled action with the
  returned value as payload, or, for \<^verbatim>\<open>rejectWithValue(v)\<close>, the rejected action with
  payload \<^verbatim>\<open>v\<close> and the error \<^verbatim>\<open>{message: 'Rejected'}\<close>. Each payload creator
  below calls its service function inside \<^verbatim>\<open>try\<close> and returns the response, or
  \<^verbatim>\<open>rejectWithValue\<close> of what the service threw. The functions give the action that
  settles the thunk.
\<close>

definition rejectWithValue :: "thunk \<Rightarrow> jsval \<Rightarrow> action" where
  "rejectWithValue t v = Rejected t v (JStr ''Rejected'')"

definition registerUserThunk :: "axios \<Rightarrow> string \<Rightarrow> jsval \<Rightarrow> action" where
  "registerUserThunk axios base userData =
     (case registerUser axios base userData of
        Inr response \<Rightarrow> Fulfilled Register response
      | Inl err \<Rightarrow> rejectWithValue Register err)"

definition confirmUserRegistrationThunk :: "axios \<Rightarrow> string \<Rightarrow> jsval \<Rightarrow> action" where
  "confirmUserRegistrationThunk axios base data =
     (case confirmUserRegistration axios base data of
        Inr response \<Rightarrow> Fulfilled ConfirmRegistration response
      | Inl err \<Rightarrow> rejectWithValue ConfirmRegistration err)"

definition authenticateUserThunk :: "axios \<Rightarrow> string \<Rightarrow> jsval \<Rightarrow> action" where
  "authenticateUserThunk axios base credentials =
     (case authenticateUser axios base credentials of
        Inr response \<Rightarrow> Fulfilled Authenticate response
      | Inl err \<Rightarrow> rejectWithValue Authenticate err)"

definition initiatePasswordResetThunk :: "axios \<Rightarrow> string \<Rightarrow> jsval \<Rightarrow> action" where
  "initiatePasswordResetThunk axios base email =
     (case initiatePasswordReset axios base email of
        Inr response \<Rightarrow> Fulfilled InitiatePasswordReset response
      | Inl err \<Rightarrow> rejectWithValue InitiatePasswordReset err)"

definition completePasswordResetThunk :: "axios \<Rightarrow> string \<Rightarrow> jsval \<Rightarrow> action" where
  "completePasswordResetThunk axios base data =
     (case completePasswordReset axios base data of
        Inr response \<Rightarrow> Fulfilled CompletePasswordReset response
      | Inl err \<Rightarrow> rejectWithValue CompletePasswordReset err)"

definition getUserByIdThunk :: "axios \<Rightarrow> string \<Rightarrow> jsval \<Rightarrow> action" where
  "getUserByIdThunk axios base user_id =
     (case getUserById axios base user_id of
        Inr response \<Rightarrow> Fulfilled GetUserById response
      | Inl err \<Rightarrow> rejectWithValue GetUserById err)"

text \<open>
  The argument of the update thunk is an object, destructured into its properties
  \<^verbatim>\<open>id\<close> and \<^verbatim>\<open>updateData\<close>.
\<close>

definition updateUserThunk :: "axios \<Rightarrow> string \<Rightarrow> (string \<times> jsval) list \<Rightarrow> action" where
  "updateUserThunk axios base arg =
     (case updateUser axios base (property arg ''id'') (property arg ''updateData'') of
        Inr response \<Rightarrow> Fulfilled UpdateUser response
      | Inl err \<Rightarrow> rejectWithValue UpdateUser err)"

section \<open>Properties stated over the model\<close>

text \<open>
  A sequence of actions in which no fulfilled action is applied to a state that still
  holds an error. It is so whenever each operation settles before the next one is
  triggered, since the pending action of an operation clears the error.
\<close>

fun no_success_over_error :: "user_state \<Rightarrow> action list \<Rightarrow> bool" where
  "no_success_over_error s [] = True"
| "no_success_over_error s (Fulfilled t p # as) =
     (error s = JNull \<and> no_success_over_error (reducer s (Fulfilled t p)) as)"
| "no_success_over_error s (a # as) = no_success_over_error (reducer s a) as"

text \<open>
  The contract of an operation of the API client: a successful response gives its
  body as the success payload; a failure gives a failure outcome, which carries the
  error body of the response when that body is truthy (as every object is) and the raw
  error object in every other case: no response, no body, or a falsy body.
\<close>

definition client_contract :: "axios_outcome \<Rightarrow> jsval + jsval \<Rightarrow> bool" where
  "client_contract answer outcome =
     (case answer of
        AxiosResponse response \<Rightarrow> outcome = Inr (property response ''data'')
      | AxiosError err \<Rightarrow>
          isl outcome
          \<and> (truthy (response_data err) \<longrightarrow> outcome = Inl (response_data err))
          \<and> (\<not> truthy (response_data err) \<longrightarrow> outcome = Inl (JObj err)))"

text \<open>A failure whose error body is falsy gives the raw error object.\<close>

definition raw_error_on_falsy_body :: "axios_outcome \<Rightarrow> jsval + jsval \<Rightarrow> bool" where
  "raw_error_on_falsy_body answer outcome =
     (case answer of
        AxiosResponse response \<Rightarrow> True
      | AxiosError err \<Rightarrow> \<not> truthy (response_data err) \<longrightarrow> outcome = Inl (JObj err))"

section \<open>The handlers of the three lifecycle actions\<close>

text \<open>The seven thunks have the same three handlers, but for one fulfilled case.\<close>

lemma reducer_pending: "reducer state (Pending t) = state\<lparr>status := Loading, error := JNull\<rparr>"
  by (cases t) simp_all

lemma reducer_rejected:
  "reducer state (Rejected t p m) = state\<lparr>status := Failed, error := js_or p m\<rparr>"
  by (cases t) simp_all

lemma reducer_fulfilled:
  "reducer state (Fulfilled t p) =
     (if t = InitiatePasswordReset then state\<lparr>status := Succeeded\<rparr>
      else state\<lparr>status := Succeeded, user := p\<rparr>)"
  by (cases t) simp_all

lemmas reducer_eqs = reducer_pending reducer_rejected reducer_fulfilled clearError_def logout_def

section \<open>Error and status in the reachable states\<close>

lemma reducer_error_status:
  assumes "error s = JNull \<or> status s = Failed \<or> status s = Succeeded"
  shows "error (reducer s a) = JNull \<or> status (reducer s a) = Failed
         \<or> status (reducer s a) = Succeeded"
  using assms by (cases a) (auto simp: reducer_eqs)

lemma dispatch_error_status:
  assumes "error s = JNull \<or> status s = Failed \<or> status s = Succeeded"
  shows "error (dispatch s as) = JNull \<or> status (dispatch s as) = Failed
         \<or> status (dispatch s as) = Succeeded"
  using assms unfolding dispatch_def
proof (induction as arbitrary: s)
  case Nil
  then show ?case by simp
next
  case (Cons a as)
  from reducer_error_status [OF Cons.prems] show ?case
    by (simp add: Cons.IH)
qed

lemma dispatch_idle_loading_error:
  assumes "status (dispatch initialState as) = Idle \<or> status (dispatch initialState as) = Loading"
  shows "error (dispatch initialState as) = JNull"
  using assms dispatch_error_status [of initialState as]
  by (auto simp: initialState_def)

lemma dispatch_in_turn:
  assumes "error s = JNull \<or> status s = Failed" and "no_success_over_error s as"
  shows "error (dispatch s as) = JNull \<or> status (dispatch s as) = Failed"
  using assms unfolding dispatch_def
proof (induction as arbitrary: s)
  case Nil
  then show ?case by simp
next
  case (Cons a as)
  show ?case
  proof (cases a)
    case (Fulfilled t p)
    with Cons.prems have e: "error s = JNull" and n: "no_success_over_error (reducer s a) as"
      by simp_all
    from e Fulfilled have "error (reducer s a) = JNull"
      by (simp add: reducer_fulfilled)
    with n Cons.IH show ?thesis by simp
  next
    case ClearError
    with Cons.prems Cons.IH [of "reducer s a"] show ?thesis by (simp add: reducer_eqs)
  next
    case Logout
    with Cons.prems Cons.IH [of "reducer s a"] show ?thesis by (simp add: reducer_eqs)
  next
    case (Pending t)
    with Cons.prems Cons.IH [of "reducer s a"] show ?thesis by (simp add: reducer_eqs)
  next
    case (Rejected t p m)
    with Cons.prems Cons.IH [of "reducer s a"] show ?thesis by (simp add: reducer_eqs)
  qed
qed

text \<open>
  C1, as the specification states it: in every state reached from the initial state by
  pending, fulfilled, rejected, clearError and logout actions in any order, the error is
  non-empty only when the status is failed. This fails: two operations are triggered,
  the first one fails, the second one succeeds. The fulfilled handler does not touch the
  error, so the state has status succeeded and still holds the error of the failure.
\<close>

theorem error_only_when_failed_counterexample:
  "error (dispatch initialState
      [Pending Authenticate, Pending GetUserById,
       Rejected Authenticate (JObj [(''message'', JStr ''invalid credentials'')]) (JStr ''Rejected''),
       Fulfilled GetUserById (JObj [(''id'', JNum 1)])]) \<noteq> JNull
   \<and> status (dispatch initialState
      [Pending Authenticate, Pending GetUserById,
       Rejected Authenticate (JObj [(''message'', JStr ''invalid credentials'')]) (JStr ''Rejected''),
       Fulfilled GetUserById (JObj [(''id'', JNum 1)])]) \<noteq> Failed"
  by (simp add: dispatch_def initialState_def js_or_def)

text \<open>
  C1, amended: in every state reached from the initial state by any sequence of these
  actions, the error is non-empty only when the status is failed or succeeded; and it
  is non-empty only when the status is failed along every sequence in which no
  fulfilled action is applied to a state that holds an error.
\<close>

theorem error_only_when_failed_or_succeeded:
  "(error (dispatch initialState as) \<noteq> JNull \<longrightarrow>
      status (dispatch initialState as) = Failed \<or> status (dispatch initialState as) = Succeeded)
   \<and> (no_success_over_error initialState as \<longrightarrow> error (dispatch initialState as) \<noteq> JNull \<longrightarrow>
      status (dispatch initialState as) = Failed)"
proof -
  have i: "error initialState = JNull" by (simp add: initialState_def)
  from i dispatch_error_status [of initialState as] have a:
    "error (dispatch initialState as) = JNull \<or> status (dispatch initialState as) = Failed
     \<or> status (dispatch initialState as) = Succeeded" by simp
  from i dispatch_in_turn [of initialState as] have b:
    "no_success_over_error initialState as \<Longrightarrow>
     error (dispatch initialState as) = JNull \<or> status (dispatch initialState as) = Failed" by simp
  from a b show ?thesis by blast
qed

theorem error_only_when_failed_or_succeeded_witness:
  "error (dispatch initialState
      [Pending Authenticate,
       Rejected Authenticate (JObj [(''message'', JStr ''invalid credentials'')]) (JStr ''Rejected'')])
     \<noteq> JNull
   \<and> no_success_over_error initialState
      [Pending Authenticate,
       Rejected Authenticate (JObj [(''message'', JStr ''invalid credentials'')]) (JStr ''Rejected'')]
   \<and> status (dispatch initialState
      [Pending Authenticate,
       Rejected Authenticate (JObj [(''message'', JStr ''invalid credentials'')]) (JStr ''Rejected'')])
     = Failed"
  using error_only_when_failed_or_succeeded [of
      "[Pending Authenticate,
        Rejected Authenticate (JObj [(''message'', JStr ''invalid credentials'')]) (JStr ''Rejected'')]"]
  by (simp add: dispatch_def initialState_def js_or_def)

section \<open>The fulfilled transition\<close>

text \<open>
  C3. For register, confirm, authenticate, complete-reset, get-by-id and update (every
  thunk but initiate-reset), the fulfilled action with payload \<open>p\<close> sets the status to
  succeeded and the user to exactly \<open>p\<close>, whatever the user was before, and changes
  nothing else. In particular a successful authenticate stores the body of the response.
\<close>

theorem fulfilled_replaces_user:
  "t \<noteq> InitiatePasswordReset \<Longrightarrow>
   reducer state (Fulfilled t p) = state\<lparr>status := Succeeded, user := p\<rparr>
   \<and> status (reducer state (Fulfilled t p)) = Succeeded
   \<and> user (reducer state (Fulfilled t p)) = p
   \<and> reducer state (authenticateUserThunk (\<lambda>r. AxiosResponse response) base credentials)
       = state\<lparr>status := Succeeded, user := property response ''data''\<rparr>"
  by (simp add: reducer_fulfilled authenticateUserThunk_def authenticateUser_def)

theorem fulfilled_replaces_user_witness:
  "UpdateUser \<noteq> InitiatePasswordReset
   \<and> user (reducer
        \<lparr>user = JObj [(''id'', JNum 7), (''email'', JStr ''a@b.com''), (''name'', JStr ''Old Name'')],
         status = Loading, error = JNull\<rparr>
        (Fulfilled UpdateUser (JObj [(''id'', JNum 7), (''name'', JStr ''New Name'')])))
      = JObj [(''id'', JNum 7), (''name'', JStr ''New Name'')]"
  using fulfilled_replaces_user [of UpdateUser
      "\<lparr>user = JObj [(''id'', JNum 7), (''email'', JStr ''a@b.com''), (''name'', JStr ''Old Name'')],
        status = Loading, error = JNull\<rparr>"
      "JObj [(''id'', JNum 7), (''name'', JStr ''New Name'')]"]
  by simp

text \<open>
  C7. The fulfilled action of initiate-reset changes the status to succeeded and nothing
  else: the user stays as it was, and the payload is not stored. So it is for the
  thunk triggered with \<^verbatim>\<open>a@b.com\<close> when the request succeeds.
\<close>

theorem initiatePasswordReset_fulfilled_keeps_user:
  "reducer state (Fulfilled InitiatePasswordReset p) = state\<lparr>status := Succeeded\<rparr>
   \<and> user (reducer state (Fulfilled InitiatePasswordReset p)) = user state
   \<and> status (reducer state (Fulfilled InitiatePasswordReset p)) = Succeeded
   \<and> reducer state (initiatePasswordResetThunk (\<lambda>r. AxiosResponse response) base (JStr ''a@b.com''))
       = state\<lparr>status := Succeeded\<rparr>"
  by (simp add: initiatePasswordResetThunk_def initiatePasswordReset_def)

text \<open>
  C9. For each of the seven operations the fulfilled action leaves the error exactly as
  it was. So a success applied with no pending action since an earlier failure keeps the
  error of that failure: after two triggers, the failure of the first and the success
  of the second, the error is still the one of the failure. The pending action,
  \<^verbatim>\<open>clearError\<close> and \<^verbatim>\<open>logout\<close> set the error to null; the rejected action does not,
  as long as the message it falls back to is not null itself (it is a string, or
  undefined).
\<close>

theorem fulfilled_keeps_error:
  "error (reducer state (Fulfilled t p)) = error state
   \<and> error (dispatch initialState
        [Pending Authenticate, Pending GetUserById,
         Rejected Authenticate (JObj [(''message'', JStr ''invalid credentials'')]) (JStr ''Rejected''),
         Fulfilled GetUserById (JObj [(''id'', JNum 1)])])
      = JObj [(''message'', JStr ''invalid credentials'')]
   \<and> error (reducer state (Pending t)) = JNull
   \<and> error (reducer state ClearError) = JNull
   \<and> error (reducer state Logout) = JNull
   \<and> (m \<noteq> JNull \<longrightarrow> error (reducer state (Rejected t q m)) \<noteq> JNull)"
proof -
  have "m \<noteq> JNull \<longrightarrow> error (reducer state (Rejected t q m)) \<noteq> JNull"
    by (cases q) (simp_all add: reducer_rejected js_or_def)
  then show ?thesis
    by (simp add: reducer_eqs dispatch_def initialState_def js_or_def)
qed

theorem fulfilled_keeps_error_witness:
  "JStr ''Rejected'' \<noteq> JNull
   \<and> error (reducer initialState (Rejected Register JUndefined (JStr ''Rejected''))) \<noteq> JNull
   \<and> error (reducer
        \<lparr>user = JNull, status = Failed, error = JStr ''Network Error''\<rparr>
        (Fulfilled Register (JObj [(''id'', JNum 1)])))
      = JStr ''Network Error''"
  using fulfilled_keeps_error [of
      "\<lparr>user = JNull, status = Failed, error = JStr ''Network Error''\<rparr>"
      Register "JObj [(''id'', JNum 1)]" "JStr ''Rejected''" JUndefined]
    fulfilled_keeps_error [of initialState Register JNull "JStr ''Rejected''" JUndefined]
  by simp

section \<open>The rejected transition\<close>

text \<open>
  C2. For each of the seven operations the rejected action sets the status to failed
  and leaves the user as it is. It sets the error to the payload of the action, the
  error that the service threw, when that is truthy (every object is), and to the
  message of the action when the action carries no payload. In particular, when the
  authenticate request fails with the response body
  \<^verbatim>\<open>{message: "invalid credentials"}\<close>, the thunk leaves the store with status failed,
  that very body as the error, and the user it had.
\<close>

theorem rejected_sets_failed_and_error:
  "status (reducer state (Rejected t p m)) = Failed
   \<and> user (reducer state (Rejected t p m)) = user state
   \<and> (truthy p \<longrightarrow> error (reducer state (Rejected t p m)) = p)
   \<and> error (reducer state (Rejected t JUndefined m)) = m
   \<and> (axios (Post (base @ ''/authenticate'') credentials) = AxiosError err \<longrightarrow>
        response_data err = JObj [(''message'', JStr ''invalid credentials'')] \<longrightarrow>
        reducer state (authenticateUserThunk axios base credentials) =
          state\<lparr>status := Failed, error := JObj [(''message'', JStr ''invalid credentials'')]\<rparr>)"
  by (simp add: reducer_rejected js_or_def authenticateUserThunk_def authenticateUser_def
      rejectWithValue_def)

theorem rejected_sets_failed_and_error_witness:
  "truthy (JObj [(''message'', JStr ''invalid credentials'')])
   \<and> response_data
        [(''message'', JStr ''Request failed with status code 401''),
         (''response'', JObj [(''status'', JNum 401),
            (''data'', JObj [(''message'', JStr ''invalid credentials'')])])]
      = JObj [(''message'', JStr ''invalid credentials'')]
   \<and> reducer \<lparr>user = JObj [(''id'', JNum 7)], status = Loading, error = JNull\<rparr>
        (authenticateUserThunk
           (\<lambda>r. AxiosError
              [(''message'', JStr ''Request failed with status code 401''),
               (''response'', JObj [(''status'', JNum 401),
                  (''data'', JObj [(''message'', JStr ''invalid credentials'')])])])
           (API_BASE_URL None)
           (JObj [(''email'', JStr ''a@b.com''), (''password'', JStr ''wrong'')]))
      = \<lparr>user = JObj [(''id'', JNum 7)], status = Failed,
         error = JObj [(''message'', JStr ''invalid credentials'')]\<rparr>"
  using rejected_sets_failed_and_error [of
      "\<lparr>user = JObj [(''id'', JNum 7)], status = Loading, error = JNull\<rparr>"
      Authenticate "JObj [(''message'', JStr ''invalid credentials'')]" "JStr ''Rejected''"
      "\<lambda>r. AxiosError
              [(''message'', JStr ''Request failed with status code 401''),
               (''response'', JObj [(''status'', JNum 401),
                  (''data'', JObj [(''message'', JStr ''invalid credentials'')])])]"
      "API_BASE_URL None"
      "JObj [(''email'', JStr ''a@b.com''), (''password'', JStr ''wrong'')]"
      "[(''message'', JStr ''Request failed with status code 401''),
        (''response'', JObj [(''status'', JNum 401),
           (''data'', JObj [(''message'', JStr ''invalid credentials'')])])]"]
  by (simp add: response_data_def property_def)

section \<open>The pending transition\<close>

text \<open>
  C4. For each of the seven operations and every state, the pending action, which the
  thunk dispatches when it is triggered and before any outcome, sets the status to
  loading, sets the error to null and leaves the user as it is.
\<close>

theorem pending_sets_loading_and_clears_error:
  "reducer state (Pending t) = state\<lparr>status := Loading, error := JNull\<rparr>
   \<and> status (reducer state (Pending t)) = Loading
   \<and> error (reducer state (Pending t)) = JNull
   \<and> user (reducer state (Pending t)) = user state"
  by (simp add: reducer_pending)

section \<open>The synchronous reducers\<close>

text \<open>
  C8. Whatever the state, \<^verbatim>\<open>logout\<close> yields exactly the initial state: no user, status
  idle, no error.
\<close>

theorem logout_yields_initialState:
  "reducer state Logout = initialState
   \<and> reducer state Logout = \<lparr>user = JNull, status = Idle, error = JNull\<rparr>"
  by (simp add: logout_def initialState_def)

text \<open>
  C6, as the specification states it: \<^verbatim>\<open>clearError\<close> sets the error to empty and
  leaves status and user as they are, and when the status is not failed the error is
  empty already, so that the state does not change at all. The second half fails in
  the state reached by two triggers, the failure of the first and the success of the
  second: the status is succeeded, the error of the failure is still held, and
  \<^verbatim>\<open>clearError\<close> removes it.
\<close>

theorem clearError_unchanged_unless_failed_counterexample:
  "status (dispatch initialState
      [Pending Authenticate, Pending GetUserById,
       Rejected Authenticate (JObj [(''message'', JStr ''invalid credentials'')]) (JStr ''Rejected''),
       Fulfilled GetUserById (JObj [(''id'', JNum 1)])]) \<noteq> Failed
   \<and> reducer (dispatch initialState
      [Pending Authenticate, Pending GetUserById,
       Rejected Authenticate (JObj [(''message'', JStr ''invalid credentials'')]) (JStr ''Rejected''),
       Fulfilled GetUserById (JObj [(''id'', JNum 1)])]) ClearError
     \<noteq> dispatch initialState
      [Pending Authenticate, Pending GetUserById,
       Rejected Authenticate (JObj [(''message'', JStr ''invalid credentials'')]) (JStr ''Rejected''),
       Fulfilled GetUserById (JObj [(''id'', JNum 1)])]"
  by (simp add: dispatch_def initialState_def js_or_def clearError_def)

text \<open>
  C6, amended: in every state \<^verbatim>\<open>clearError\<close> sets the error to null and leaves status
  and user as they are; it leaves the state entirely unchanged when the error is
  empty already, which is so in every reachable state whose status is idle or loading.
\<close>

theorem clearError_clears_only_error:
  "reducer state ClearError = state\<lparr>error := JNull\<rparr>
   \<and> error (reducer state ClearError) = JNull
   \<and> status (reducer state ClearError) = status state
   \<and> user (reducer state ClearError) = user state
   \<and> (error state = JNull \<longrightarrow> reducer state ClearError = state)
   \<and> (status (dispatch initialState as) = Idle \<or> status (dispatch initialState as) = Loading \<longrightarrow>
        reducer (dispatch initialState as) ClearError = dispatch initialState as)"
proof -
  have e: "error s = JNull \<Longrightarrow> reducer s ClearError = s" for s
    by (simp add: clearError_def)
  from e dispatch_idle_loading_error [of as] show ?thesis
    by (auto simp: clearError_def)
qed

theorem clearError_clears_only_error_witness:
  "error \<lparr>user = JObj [(''id'', JNum 7)], status = Succeeded, error = JNull\<rparr> = JNull
   \<and> reducer \<lparr>user = JObj [(''id'', JNum 7)], status = Succeeded, error = JNull\<rparr> ClearError
      = \<lparr>user = JObj [(''id'', JNum 7)], status = Succeeded, error = JNull\<rparr>
   \<and> status (dispatch initialState [Pending Authenticate]) = Loading
   \<and> reducer (dispatch initialState [Pending Authenticate]) ClearError
      = dispatch initialState [Pending Authenticate]"
  using clearError_clears_only_error [of
      "\<lparr>user = JObj [(''id'', JNum 7)], status = Succeeded, error = JNull\<rparr>"
      "[Pending Authenticate]"]
  by (simp add: dispatch_def initialState_def)

section \<open>The API client\<close>

text \<open>Every service function settles the answer to its one request in the same way.\<close>

lemmas service_defs = registerUser_def confirmUserRegistration_def authenticateUser_def
  initiatePasswordReset_def completePasswordReset_def getUserById_def updateUser_def

lemma contract_of_answer:
  "client_contract answer
     (case answer of
        AxiosResponse response \<Rightarrow> Inr (property response ''data'')
      | AxiosError err \<Rightarrow> Inl (js_or (response_data err) (JObj err)))"
  by (cases answer) (simp_all add: client_contract_def js_or_def)

lemma raw_error_of_answer:
  "raw_error_on_falsy_body answer
     (case answer of
        AxiosResponse response \<Rightarrow> Inr (property response ''data'')
      | AxiosError err \<Rightarrow> Inl (js_or (response_data err) (JObj err)))"
  by (cases answer) (simp_all add: raw_error_on_falsy_body_def js_or_def)

text \<open>
  C5, as the specification states it: on a failure each operation gives a failure
  outcome that carries the error body of the response when one is present, and the raw
  error otherwise. This fails for a body that is present and falsy. A response with
  status 500 and the empty string as body, and a response with status 404 and the body
  \<^verbatim>\<open>0\<close>, both have an error body; \<^verbatim>\<open>registerUser\<close> and \<^verbatim>\<open>getUserById\<close> do not
  throw that body, they throw the raw error object.
\<close>

theorem services_carry_present_body_counterexample:
  "response_data
     [(''message'', JStr ''Request failed with status code 500''),
      (''response'', JObj [(''status'', JNum 500), (''data'', JStr [])])] = JStr []
   \<and> registerUser
        (\<lambda>r. AxiosError
           [(''message'', JStr ''Request failed with status code 500''),
            (''response'', JObj [(''status'', JNum 500), (''data'', JStr [])])])
        ''/api/users'' (JObj [(''email'', JStr ''a@b.com'')])
      \<noteq> Inl (JStr [])
   \<and> registerUser
        (\<lambda>r. AxiosError
           [(''message'', JStr ''Request failed with status code 500''),
            (''response'', JObj [(''status'', JNum 500), (''data'', JStr [])])])
        ''/api/users'' (JObj [(''email'', JStr ''a@b.com'')])
      = Inl (JObj
           [(''message'', JStr ''Request failed with status code 500''),
            (''response'', JObj [(''status'', JNum 500), (''data'', JStr [])])])
   \<and> response_data
     [(''message'', JStr ''Request failed with status code 404''),
      (''response'', JObj [(''status'', JNum 404), (''data'', JNum 0)])] = JNum 0
   \<and> getUserById
        (\<lambda>r. AxiosError
           [(''message'', JStr ''Request failed with status code 404''),
            (''response'', JObj [(''status'', JNum 404), (''data'', JNum 0)])])
        ''/api/users'' (JNum 7)
      \<noteq> Inl (JNum 0)
   \<and> getUserById
        (\<lambda>r. AxiosError
           [(''message'', JStr ''Request failed with status code 404''),
            (''response'', JObj [(''status'', JNum 404), (''data'', JNum 0)])])
        ''/api/users'' (JNum 7)
      = Inl (JObj
           [(''message'', JStr ''Request failed with status code 404''),
            (''response'', JObj [(''status'', JNum 404), (''data'', JNum 0)])])"
  by (simp add: registerUser_def getUserById_def response_data_def property_def js_or_def)

text \<open>
  C5, amended: each of the seven operations of the API client sends its one request
  and, when the response is a success, returns its body unchanged; when the request
  fails it throws: the error body of the response when that body is truthy (every
  object is), and the raw error object in every other case, also when the body is
  present and falsy. The result is always either the returned payload or the thrown
  error.
\<close>

theorem services_meet_client_contract:
  "client_contract (axios (Post (base @ ''/register'') userData))
     (registerUser axios base userData)
   \<and> client_contract (axios (Post (base @ ''/confirm'') confirmation))
     (confirmUserRegistration axios base confirmation)
   \<and> client_contract (axios (Post (base @ ''/authenticate'') credentials))
     (authenticateUser axios base credentials)
   \<and> client_contract (axios (Post (base @ ''/password-reset/initiate'') (JObj [(''email'', email)])))
     (initiatePasswordReset axios base email)
   \<and> client_contract (axios (Post (base @ ''/password-reset/complete'') reset))
     (completePasswordReset axios base reset)
   \<and> client_contract (axios (Get (base @ ''/user/'' @ template user_id)))
     (getUserById axios base user_id)
   \<and> client_contract (axios (Put (base @ ''/user/'' @ template user_id) updateData))
     (updateUser axios base user_id updateData)"
  unfolding service_defs by (intro conjI contract_of_answer)

theorem services_meet_client_contract_witness:
  "truthy (response_data
      [(''message'', JStr ''Request failed with status code 401''),
       (''response'', JObj [(''status'', JNum 401),
          (''data'', JObj [(''message'', JStr ''invalid credentials'')])])])
   \<and> authenticateUser
        (\<lambda>r. case r of
           Post url body \<Rightarrow> AxiosError
             [(''message'', JStr ''Request failed with status code 401''),
              (''response'', JObj [(''status'', JNum 401),
                 (''data'', JObj [(''message'', JStr ''invalid credentials'')])])]
         | Get url \<Rightarrow> AxiosResponse
             [(''status'', JNum 200), (''data'', JObj [(''id'', JNum 7), (''name'', JStr ''Ann'')])]
         | Put url body \<Rightarrow> AxiosError [(''message'', JStr ''Network Error'')])
        ''/api/users'' (JObj [(''email'', JStr ''a@b.com''), (''password'', JStr ''wrong'')])
      = Inl (JObj [(''message'', JStr ''invalid credentials'')])
   \<and> getUserById
        (\<lambda>r. case r of
           Post url body \<Rightarrow> AxiosError
             [(''message'', JStr ''Request failed with status code 401''),
              (''response'', JObj [(''status'', JNum 401),
                 (''data'', JObj [(''message'', JStr ''invalid credentials'')])])]
         | Get url \<Rightarrow> AxiosResponse
             [(''status'', JNum 200), (''data'', JObj [(''id'', JNum 7), (''name'', JStr ''Ann'')])]
         | Put url body \<Rightarrow> AxiosError [(''message'', JStr ''Network Error'')])
        ''/api/users'' (JNum 7)
      = Inr (JObj [(''id'', JNum 7), (''name'', JStr ''Ann'')])
   \<and> \<not> truthy (response_data [(''message'', JStr ''Network Error'')])
   \<and> updateUser
        (\<lambda>r. case r of
           Post url body \<Rightarrow> AxiosError
             [(''message'', JStr ''Request failed with status code 401''),
              (''response'', JObj [(''status'', JNum 401),
                 (''data'', JObj [(''message'', JStr ''invalid credentials'')])])]
         | Get url \<Rightarrow> AxiosResponse
             [(''status'', JNum 200), (''data'', JObj [(''id'', JNum 7), (''name'', JStr ''Ann'')])]
         | Put url body \<Rightarrow> AxiosError [(''message'', JStr ''Network Error'')])
        ''/api/users'' (JNum 7) (JObj [(''name'', JStr ''New Name'')])
      = Inl (JObj [(''message'', JStr ''Network Error'')])"
  using services_meet_client_contract [of
      "\<lambda>r. case r of
           Post url body \<Rightarrow> AxiosError
             [(''message'', JStr ''Request failed with status code 401''),
              (''response'', JObj [(''status'', JNum 401),
                 (''data'', JObj [(''message'', JStr ''invalid credentials'')])])]
         | Get url \<Rightarrow> AxiosResponse
             [(''status'', JNum 200), (''data'', JObj [(''id'', JNum 7), (''name'', JStr ''Ann'')])]
         | Put url body \<Rightarrow> AxiosError [(''message'', JStr ''Network Error'')]"
      "''/api/users''" JNull JNull
      "JObj [(''email'', JStr ''a@b.com''), (''password'', JStr ''wrong'')]"
      JNull JNull "JNum 7" "JObj [(''name'', JStr ''New Name'')]"]
  by (simp add: client_contract_def response_data_def property_def)

text \<open>
  C10. The error is normalized by truthiness: when the failure response carries a falsy
  body (the empty string, 0, null), every operation of the API client throws the raw
  error object, not that body; and the rejected handler of the store puts the message of
  the action in the error whenever the payload is falsy, not only when it is missing.
\<close>

theorem services_throw_raw_error_on_falsy_body:
  "raw_error_on_falsy_body (axios (Post (base @ ''/register'') userData))
     (registerUser axios base userData)
   \<and> raw_error_on_falsy_body (axios (Post (base @ ''/confirm'') confirmation))
     (confirmUserRegistration axios base confirmation)
   \<and> raw_error_on_falsy_body (axios (Post (base @ ''/authenticate'') credentials))
     (authenticateUser axios base credentials)
   \<and> raw_error_on_falsy_body
       (axios (Post (base @ ''/password-reset/initiate'') (JObj [(''email'', email)])))
     (initiatePasswordReset axios base email)
   \<and> raw_error_on_falsy_body (axios (Post (base @ ''/password-reset/complete'') reset))
     (completePasswordReset axios base reset)
   \<and> raw_error_on_falsy_body (axios (Get (base @ ''/user/'' @ template user_id)))
     (getUserById axios base user_id)
   \<and> raw_error_on_falsy_body (axios (Put (base @ ''/user/'' @ template user_id) updateData))
     (updateUser axios base user_id updateData)
   \<and> (\<not> truthy p \<longrightarrow> error (reducer state (Rejected t p m)) = m)"
  unfolding service_defs
  by (intro conjI raw_error_of_answer) (simp add: reducer_rejected js_or_def)

theorem services_throw_raw_error_on_falsy_body_witness:
  "\<not> truthy (response_data [(''response'', JObj [(''status'', JNum 500), (''data'', JStr [])])])
   \<and> registerUser
        (\<lambda>r. case r of
           Post url body \<Rightarrow>
             AxiosError [(''response'', JObj [(''status'', JNum 500), (''data'', JStr [])])]
         | Get url \<Rightarrow>
             AxiosError [(''response'', JObj [(''status'', JNum 404), (''data'', JNum 0)])]
         | Put url body \<Rightarrow>
             AxiosError [(''response'', JObj [(''status'', JNum 400), (''data'', JNull)])])
        ''/api/users'' (JObj [(''email'', JStr ''a@b.com'')])
      = Inl (JObj [(''response'', JObj [(''status'', JNum 500), (''data'', JStr [])])])
   \<and> \<not> truthy (response_data [(''response'', JObj [(''status'', JNum 404), (''data'', JNum 0)])])
   \<and> getUserById
        (\<lambda>r. case r of
           Post url body \<Rightarrow>
             AxiosError [(''response'', JObj [(''status'', JNum 500), (''data'', JStr [])])]
         | Get url \<Rightarrow>
             AxiosError [(''response'', JObj [(''status'', JNum 404), (''data'', JNum 0)])]
         | Put url body \<Rightarrow>
             AxiosError [(''response'', JObj [(''status'', JNum 400), (''data'', JNull)])])
        ''/api/users'' (JNum 7)
      = Inl (JObj [(''response'', JObj [(''status'', JNum 404), (''data'', JNum 0)])])
   \<and> \<not> truthy (response_data [(''response'', JObj [(''status'', JNum 400), (''data'', JNull)])])
   \<and> updateUser
        (\<lambda>r. case r of
           Post url body \<Rightarrow>
             AxiosError [(''response'', JObj [(''status'', JNum 500), (''data'', JStr [])])]
         | Get url \<Rightarrow>
             AxiosError [(''response'', JObj [(''status'', JNum 404), (''data'', JNum 0)])]
         | Put url body \<Rightarrow>
             AxiosError [(''response'', JObj [(''status'', JNum 400), (''data'', JNull)])])
        ''/api/users'' (JNum 7) (JObj [(''name'', JStr ''New Name'')])
      = Inl (JObj [(''response'', JObj [(''status'', JNum 400), (''data'', JNull)])])
   \<and> \<not> truthy (JStr [])
   \<and> error (reducer initialState (Rejected Register (JStr []) (JStr ''Rejected'')))
      = JStr ''Rejected''"
  using services_throw_raw_error_on_falsy_body [of
      "\<lambda>r. case r of
           Post url body \<Rightarrow>
             AxiosError [(''response'', JObj [(''status'', JNum 500), (''data'', JStr [])])]
         | Get url \<Rightarrow>
             AxiosError [(''response'', JObj [(''status'', JNum 404), (''data'', JNum 0)])]
         | Put url body \<Rightarrow>
             AxiosError [(''response'', JObj [(''status'', JNum 400), (''data'', JNull)])]"
      "''/api/users''" "JObj [(''email'', JStr ''a@b.com'')]" JNull JNull JNull JNull
      "JNum 7" "JObj [(''name'', JStr ''New Name'')]" "JStr []" initialState Register
      "JStr ''Rejected''"]
  by (simp add: raw_error_on_falsy_body_def response_data_def property_def)

end
